theory Spec2Isabelle
  imports Complex_Main
begin

section \<open>AppCarro backend: angle utilities, spherical geometry, calibration\<close>

text \<open>
  The embedding follows \<^verbatim>\<open>backend/AppCarro_backend.py\<close> in two layers.

  The first layer reads Python's \<^verbatim>\<open>float\<close> as \<^typ>\<open>real\<close>: every operation is the exact
  one. It carries the calibration core, the cache \<^verbatim>\<open>STATE\<close> and the routes, and the
  properties whose truth does not hang on rounding.

  The second layer (section \<open>Binary64 arithmetic\<close>) reads a \<^verbatim>\<open>float\<close> as an IEEE binary64
  value: a finite double, an infinity or NaN, with every operation rounded to nearest,
  ties to even. It carries the angle utilities and the spherical transforms once more,
  and the properties that rounding and overflow decide.
\<close>

subsection \<open>Library functions of Python used by the source\<close>

text \<open>
  \<^verbatim>\<open>a % b\<close> on floats with \<open>b \<noteq> 0\<close>: the floored remainder, which has the sign of \<open>b\<close>.
\<close>

definition py_mod :: "real \<Rightarrow> real \<Rightarrow> real" where
  "py_mod a b = a - b * of_int \<lfloor>a / b\<rfloor>"

text \<open>
  \<^verbatim>\<open>math.atan2(y, x)\<close>: the angle of the point \<open>(x, y)\<close> in \<open>(-\<pi>, \<pi>]\<close>, and \<open>0\<close> at the
  origin.
\<close>

definition atan2 :: "real \<Rightarrow> real \<Rightarrow> real" where
  "atan2 y x =
     (if 0 < x then arctan (y / x)
      else if x < 0 then (if 0 \<le> y then arctan (y / x) + pi else arctan (y / x) - pi)
      else if 0 < y then pi / 2
      else if y < 0 then - (pi / 2)
      else 0)"

text \<open>\<^verbatim>\<open>math.hypot(x, y)\<close>.\<close>

definition hypot :: "real \<Rightarrow> real \<Rightarrow> real" where
  "hypot x y = sqrt (x * x + y * y)"

text \<open>
  The exceptions the modelled functions can raise. \<^verbatim>\<open>ValueError\<close> carries its message
  (written in ASCII).
\<close>

datatype error =
    ValueError string
  | ZeroDivisionError
  | KeyError string
  | FileNotFoundError

text \<open>\<^verbatim>\<open>math.sqrt(x)\<close> raises \<^verbatim>\<open>ValueError\<close> on a negative argument.\<close>

definition py_sqrt :: "real \<Rightarrow> error + real" where
  "py_sqrt x = (if x < 0 then Inl (ValueError ''math domain error'') else Inr (sqrt x))"

text \<open>\<^verbatim>\<open>a / b\<close> on floats raises \<^verbatim>\<open>ZeroDivisionError\<close> when \<open>b = 0\<close>.\<close>

definition py_truediv :: "real \<Rightarrow> real \<Rightarrow> error + real" where
  "py_truediv a b = (if b = 0 then Inl ZeroDivisionError else Inr (a / b))"

subsection \<open>Geomensura utils\<close>

definition d2r :: "real \<Rightarrow> real" where
  "d2r deg = deg * pi / 180"

definition r2d :: "real \<Rightarrow> real" where
  "r2d rad = rad * 180 / pi"

definition wrap360 :: "real \<Rightarrow> real" where
  "wrap360 a = (let a' = py_mod a 360 in if a' \<ge> 0 then a' else a' + 360)"

definition wrap180 :: "real \<Rightarrow> real" where
  "wrap180 a = py_mod (a + 180) 360 - 180"

text \<open>The loop of \<^verbatim>\<open>mean_angle_deg\<close>, with its two accumulators \<open>s\<close> and \<open>c\<close>.\<close>

fun mean_angle_loop :: "real list \<Rightarrow> real \<Rightarrow> real \<Rightarrow> real \<times> real" where
  "mean_angle_loop [] s c = (s, c)"
| "mean_angle_loop (a # angles) s c =
     (let ar = d2r a in mean_angle_loop angles (s + sin ar) (c + cos ar))"

definition mean_angle_deg :: "real list \<Rightarrow> real" where
  "mean_angle_deg angles_deg =
     (case mean_angle_loop angles_deg 0 0 of
        (s, c) \<Rightarrow>
          if \<bar>s\<bar> < 1 / 10 ^ 12 \<and> \<bar>c\<bar> < 1 / 10 ^ 12 then 0
          else wrap360 (r2d (atan2 s c)))"

text \<open>
  The dictionaries with the keys \<^verbatim>\<open>"X"\<close>, \<^verbatim>\<open>"Y"\<close>, \<^verbatim>\<open>"Z"\<close>: the camera, and (extended by
  the observed readings) a collimation point. \<^verbatim>\<open>"D_obs"\<close> is read with
  \<^verbatim>\<open>pt.get("D_obs", 0.0)\<close>, so it may be absent.
\<close>

record xyz =
  X :: real
  Y :: real
  Z :: real

record collimation_point = xyz +
  name :: string
  AH_obs :: real
  AV_obs :: real
  D_obs :: "real option"

definition azimut_xy :: "'a xyz_scheme \<Rightarrow> 'b xyz_scheme \<Rightarrow> real" where
  "azimut_xy cam pt =
     (let dx = X pt - X cam;
          dy = Y pt - Y cam
      in wrap360 (r2d (atan2 dx dy)))"

definition inclinacion :: "'a xyz_scheme \<Rightarrow> 'b xyz_scheme \<Rightarrow> real" where
  "inclinacion cam pt =
     (let dx = X pt - X cam;
          dy = Y pt - Y cam;
          dz = Z pt - Z cam;
          dh = hypot dx dy
      in r2d (atan2 dz dh))"

definition calc_xyz_from_angles :: "'a xyz_scheme \<Rightarrow> real \<Rightarrow> real \<Rightarrow> real \<Rightarrow> real \<times> real \<times> real" where
  "calc_xyz_from_angles cam ah_deg av_deg dist' =
     (let ah_r = d2r ah_deg;
          av_r = d2r av_deg;
          dh = dist' * cos av_r;
          dz = dist' * sin av_r;
          dx = dh * sin ah_r;
          dy = dh * cos ah_r;
          x = X cam + dx;
          y = Y cam + dy;
          z = Z cam + dz
      in (x, y, z))"

text \<open>The tuple \<^verbatim>\<open>(x, y, z)\<close> returned by \<^verbatim>\<open>calc_xyz_from_angles\<close>, read as a point.\<close>

definition xyz_of_tuple :: "real \<times> real \<times> real \<Rightarrow> xyz" where
  "xyz_of_tuple t = (case t of (x, y, z) \<Rightarrow> \<lparr>X = x, Y = y, Z = z\<rparr>)"

subsection \<open>Calibration core\<close>

text \<open>The configuration dictionary handed to \<^verbatim>\<open>calibrate\<close>.\<close>

record config =
  camera :: xyz
  collimation_points :: "collimation_point list"

text \<open>
  One entry of the list \<^verbatim>\<open>diagnostics\<close>. The keys \<^verbatim>\<open>"name"\<close>, \<^verbatim>\<open>"AH_obs"\<close> and
  \<^verbatim>\<open>"AV_obs"\<close> carry the prefix \<open>diag_\<close> here, since a collimation point has fields of
  the same names.
\<close>

record diagnostic =
  diag_name :: string
  AH_real :: real
  AV_real :: real
  diag_AH_obs :: real
  diag_AV_obs :: real
  dAH :: real
  dAV :: real
  Dist_geom :: real
  Dist_obs :: real
  Dist_res :: real

text \<open>
  The dictionary returned by \<^verbatim>\<open>calibrate\<close>. Its first three keys are also keys of
  \<^verbatim>\<open>STATE\<close>, so they form a record of their own that both extend.
\<close>

record cal_fields =
  ajuste_ah :: real
  ajuste_av :: real
  diagnostics :: "diagnostic list"

record calibration = cal_fields +
  n_points :: nat

text \<open>\<^verbatim>\<open>float(pt.get("D_obs", 0.0))\<close>.\<close>

definition get_D_obs :: "collimation_point \<Rightarrow> real" where
  "get_D_obs pt = (case D_obs pt of None \<Rightarrow> 0 | Some d \<Rightarrow> d)"

text \<open>
  The geometric distance of \<^verbatim>\<open>calibrate\<close>:
  \<^verbatim>\<open>dist_geom = math.sqrt(dx*dx + dy*dy + dz*dz)\<close>.
\<close>

definition dist_geom_xyz :: "'a xyz_scheme \<Rightarrow> 'b xyz_scheme \<Rightarrow> error + real" where
  "dist_geom_xyz cam pt =
     (let dx = X pt - X cam;
          dy = Y pt - Y cam;
          dz = Z pt - Z cam
      in py_sqrt (dx * dx + dy * dy + dz * dz))"

text \<open>
  The body of the loop \<^verbatim>\<open>for pt in pts\<close>: the two residuals that are appended to
  \<^verbatim>\<open>deltas_ah\<close> and \<^verbatim>\<open>deltas_av\<close>, and the diagnostic entry.
\<close>

definition calibrate_point :: "xyz \<Rightarrow> collimation_point \<Rightarrow> error + (real \<times> real \<times> diagnostic)" where
  "calibrate_point cam pt =
     (let ah_real = azimut_xy cam pt;
          av_real = inclinacion cam pt;
          delta_ah = wrap180 (ah_real - AH_obs pt);
          delta_av = av_real - AV_obs pt
      in case dist_geom_xyz cam pt of
           Inl e \<Rightarrow> Inl e
         | Inr dist_geom \<Rightarrow>
             (let dist_res = dist_geom - get_D_obs pt
              in Inr (delta_ah, delta_av,
                   \<lparr>diag_name = name pt,
                    AH_real = ah_real,
                    AV_real = av_real,
                    diag_AH_obs = AH_obs pt,
                    diag_AV_obs = AV_obs pt,
                    dAH = delta_ah,
                    dAV = delta_av,
                    Dist_geom = dist_geom,
                    Dist_obs = get_D_obs pt,
                    Dist_res = dist_res\<rparr>)))"

fun calibrate_loop ::
  "xyz \<Rightarrow> collimation_point list \<Rightarrow> real list \<Rightarrow> real list \<Rightarrow> diagnostic list
    \<Rightarrow> error + (real list \<times> real list \<times> diagnostic list)" where
  "calibrate_loop cam [] deltas_ah deltas_av diags = Inr (deltas_ah, deltas_av, diags)"
| "calibrate_loop cam (pt # pts) deltas_ah deltas_av diags =
     (case calibrate_point cam pt of
        Inl e \<Rightarrow> Inl e
      | Inr (delta_ah, delta_av, d) \<Rightarrow>
          calibrate_loop cam pts (deltas_ah @ [delta_ah]) (deltas_av @ [delta_av]) (diags @ [d]))"

definition calibrate :: "config \<Rightarrow> error + calibration" where
  "calibrate cfg =
     (let cam = camera cfg;
          pts = collimation_points cfg
      in if length pts < 2
         then Inl (ValueError ''Se requieren al menos 2 puntos de colimacion para calibrar.'')
         else
           (case calibrate_loop cam pts [] [] [] of
              Inl e \<Rightarrow> Inl e
            | Inr (deltas_ah, deltas_av, diags) \<Rightarrow>
                (let deltas_ah_0360 = map wrap360 deltas_ah;
                     ajuste_ah0 = mean_angle_deg deltas_ah_0360;
                     ajuste_ah1 = wrap180 ajuste_ah0
                 in case py_truediv (sum_list deltas_av) (real (length deltas_av)) of
                      Inl e \<Rightarrow> Inl e
                    | Inr ajuste_av1 \<Rightarrow>
                        Inr \<lparr>ajuste_ah = ajuste_ah1,
                             ajuste_av = ajuste_av1,
                             diagnostics = diags,
                             n_points = length pts\<rparr>)))"

subsection \<open>The cache \<^verbatim>\<open>STATE\<close> and the routes that use it\<close>

text \<open>
  \<^verbatim>\<open>STATE\<close> has no key \<^verbatim>\<open>"n_points"\<close> until the first \<^verbatim>\<open>STATE.update(cal)\<close>.
\<close>

record state = cal_fields +
  n_points_opt :: "nat option"
  loaded :: bool


text \<open>\<^verbatim>\<open>STATE.update(cal)\<close>: every key of \<open>cal\<close> is written, \<^verbatim>\<open>"loaded"\<close> is kept.\<close>

definition update_state :: "state \<Rightarrow> calibration \<Rightarrow> state" where
  "update_state st cal =
     st\<lparr>ajuste_ah := ajuste_ah cal,
        ajuste_av := ajuste_av cal,
        diagnostics := diagnostics cal,
        n_points_opt := Some (n_points cal)\<rparr>"

text \<open>
  What the routes read and write: the file \<^verbatim>\<open>config.json\<close>, given by what
  \<^verbatim>\<open>load_config\<close> returns or raises on it, and the global \<^verbatim>\<open>STATE\<close>.
\<close>

record world =
  config_json :: "error + config"
  STATE :: state

definition load_config :: "world \<Rightarrow> error + config" where
  "load_config w = config_json w"

text \<open>
  A route returns its response, or the exception that ended it, together with the world
  it leaves behind.
\<close>

definition ensure_state :: "world \<Rightarrow> (error + unit) \<times> world" where
  "ensure_state w =
     (if \<not> loaded (STATE w) then
        (case load_config w of
           Inl e \<Rightarrow> (Inl e, w)
         | Inr cfg \<Rightarrow>
             (case calibrate cfg of
                Inl e \<Rightarrow> (Inl e, w)
              | Inr cal \<Rightarrow>
                  (let w1 = w\<lparr>STATE := update_state (STATE w) cal\<rparr>;
                       w2 = w1\<lparr>STATE := (STATE w1)\<lparr>loaded := True\<rparr>\<rparr>
                   in (Inr (), w2))))
      else (Inr (), w))"

definition api_calibrate :: "world \<Rightarrow> (error + calibration) \<times> world" where
  "api_calibrate w =
     (case load_config w of
        Inl e \<Rightarrow> (Inl e, w)
      | Inr cfg \<Rightarrow>
          (case calibrate cfg of
             Inl e \<Rightarrow> (Inl e, w)
           | Inr cal \<Rightarrow>
               (let w1 = w\<lparr>STATE := update_state (STATE w) cal\<rparr>;
                    w2 = w1\<lparr>STATE := (STATE w1)\<lparr>loaded := True\<rparr>\<rparr>
                in (Inr cal, w2))))"

text \<open>
  \<^verbatim>\<open>api_set_config\<close>: the argument is what \<^verbatim>\<open>save_config\<close> makes of the payload, the
  normalised configuration it writes or the exception \<^verbatim>\<open>parse_num\<close> raises before the
  file is opened.
\<close>

definition save_config :: "error + config \<Rightarrow> world \<Rightarrow> (error + unit) \<times> world" where
  "save_config payload w =
     (case payload of
        Inl e \<Rightarrow> (Inl e, w)
      | Inr out \<Rightarrow> (Inr (), w\<lparr>config_json := Inr out\<rparr>))"

definition api_set_config :: "error + config \<Rightarrow> world \<Rightarrow> (error + calibration) \<times> world" where
  "api_set_config payload w =
     (case save_config payload w of
        (Inl e, w0) \<Rightarrow> (Inl e, w0)
      | (Inr u, w0) \<Rightarrow>
          (case load_config w0 of
             Inl e \<Rightarrow> (Inl e, w0)
           | Inr cfg \<Rightarrow>
               (case calibrate cfg of
                  Inl e \<Rightarrow> (Inl e, w0)
                | Inr cal \<Rightarrow>
                    (let w1 = w0\<lparr>STATE := update_state (STATE w0) cal\<rparr>;
                         w2 = w1\<lparr>STATE := (STATE w1)\<lparr>loaded := True\<rparr>\<rparr>
                     in (Inr cal, w2)))))"

text \<open>
  \<^verbatim>\<open>parse_num\<close> on a field of the request: \<^verbatim>\<open>None\<close> (the key is absent or null) raises,
  a number is returned as a float. A string is read as the number it denotes; the
  parsing of strings is not modelled.
\<close>

definition parse_num :: "real option \<Rightarrow> error + real" where
  "parse_num v = (case v of None \<Rightarrow> Inl (ValueError ''Valor numerico vacio'') | Some r \<Rightarrow> Inr r)"

text \<open>The three fields \<^verbatim>\<open>api_compute_point\<close> reads from the request.\<close>

record sighting =
  sight_AH_obs :: "real option"
  sight_AV_obs :: "real option"
  sight_D_obs :: "real option"

text \<open>The \<^verbatim>\<open>"result"\<close> and \<^verbatim>\<open>"calibration"\<close> parts of the response of \<^verbatim>\<open>api_compute_point\<close>.\<close>

record computed_point = xyz +
  res_AH_obs :: real
  res_AV_obs :: real
  res_D_obs :: real
  AH_corr :: real
  AV_corr :: real
  cal_ajuste_ah :: real
  cal_ajuste_av :: real

definition api_compute_point :: "sighting \<Rightarrow> world \<Rightarrow> (error + computed_point) \<times> world" where
  "api_compute_point payload w =
     (case ensure_state w of
        (Inl e, w0) \<Rightarrow> (Inl e, w0)
      | (Inr u, w0) \<Rightarrow>
          (case load_config w0 of
             Inl e \<Rightarrow> (Inl e, w0)
           | Inr cfg \<Rightarrow>
               (let cam = camera cfg in
                case parse_num (sight_AH_obs payload) of
                  Inl e \<Rightarrow> (Inl e, w0)
                | Inr ah_obs \<Rightarrow>
                    (case parse_num (sight_AV_obs payload) of
                       Inl e \<Rightarrow> (Inl e, w0)
                     | Inr av_obs \<Rightarrow>
                         (case parse_num (sight_D_obs payload) of
                            Inl e \<Rightarrow> (Inl e, w0)
                          | Inr dist' \<Rightarrow>
                              (let ah_corr = wrap360 (ah_obs + ajuste_ah (STATE w0));
                                   av_corr = av_obs + ajuste_av (STATE w0)
                               in case calc_xyz_from_angles cam ah_corr av_corr dist' of
                                    (x, y, z) \<Rightarrow>
                                      (Inr \<lparr>X = x, Y = y, Z = z,
                                            res_AH_obs = ah_obs,
                                            res_AV_obs = av_obs,
                                            res_D_obs = dist',
                                            AH_corr = ah_corr,
                                            AV_corr = av_corr,
                                            cal_ajuste_ah = ajuste_ah (STATE w0),
                                            cal_ajuste_av = ajuste_av (STATE w0)\<rparr>,
                                       w0)))))))"

section \<open>Binary64 arithmetic\<close>

text \<open>
  A Python \<^verbatim>\<open>float\<close>: a finite double (given by its real value), one of the two infinities,
  or NaN. The sign of zero is not represented: \<open>Fin 0\<close> stands for \<^verbatim>\<open>0.0\<close>.
\<close>

datatype float64 = Fin real | PInf | NInf | NaN

text \<open>
  Rounding to nearest, ties to even. \<open>quantum x\<close> is the spacing of the doubles around
  \<open>x\<close>: \<open>2\<close> to the power \<open>e - 52\<close> where \<open>e\<close> is the binary exponent of \<open>x\<close>, not below
  \<open>-1022\<close> (the subnormal range). \<open>round_fin\<close> rounds with an unbounded exponent, and
  \<open>round_b64\<close> overflows to an infinity when that result reaches \<open>2 ^ 1024\<close>.
\<close>

definition round_half_even :: "real \<Rightarrow> int" where
  "round_half_even t =
     (let n = \<lfloor>t\<rfloor>; f = t - of_int n
      in if f < 1 / 2 then n else if 1 / 2 < f then n + 1 else if even n then n else n + 1)"

definition quantum :: "real \<Rightarrow> real" where
  "quantum x = 2 powr of_int (max \<lfloor>log 2 \<bar>x\<bar>\<rfloor> (- 1022) - 52)"

definition round_fin :: "real \<Rightarrow> real" where
  "round_fin x = (if x = 0 then 0 else of_int (round_half_even (x / quantum x)) * quantum x)"

definition round_b64 :: "real \<Rightarrow> float64" where
  "round_b64 x =
     (let r = round_fin x
      in if 2 ^ 1024 \<le> \<bar>r\<bar> then (if 0 < x then PInf else NInf) else Fin r)"

text \<open>
  \<open>is_b64 x\<close>: the real \<open>x\<close> is a finite double.
\<close>

definition is_b64 :: "real \<Rightarrow> bool" where
  "is_b64 x = (round_b64 x = Fin x)"


text \<open>
  The operators \<^verbatim>\<open>-x\<close>, \<^verbatim>\<open>x + y\<close>, \<^verbatim>\<open>x - y\<close>, \<^verbatim>\<open>x * y\<close>, \<^verbatim>\<open>abs(x)\<close>, \<^verbatim>\<open>x >= y\<close> and
  \<^verbatim>\<open>x < y\<close> on floats. \<open>fdiv_const x d\<close> is \<^verbatim>\<open>x / d\<close> for a finite non-zero double
  \<open>d\<close> (the source divides by \<^verbatim>\<open>180.0\<close> and by \<^verbatim>\<open>math.pi\<close> only).
\<close>

fun fneg :: "float64 \<Rightarrow> float64" where
  "fneg (Fin a) = Fin (- a)"
| "fneg PInf = NInf"
| "fneg NInf = PInf"
| "fneg NaN = NaN"

fun fadd :: "float64 \<Rightarrow> float64 \<Rightarrow> float64" where
  "fadd (Fin a) (Fin b) = round_b64 (a + b)"
| "fadd NaN y = NaN"
| "fadd x NaN = NaN"
| "fadd PInf NInf = NaN"
| "fadd NInf PInf = NaN"
| "fadd PInf y = PInf"
| "fadd x PInf = PInf"
| "fadd NInf y = NInf"
| "fadd x NInf = NInf"

definition fsub :: "float64 \<Rightarrow> float64 \<Rightarrow> float64" where
  "fsub x y = fadd x (fneg y)"

fun fmul :: "float64 \<Rightarrow> float64 \<Rightarrow> float64" where
  "fmul (Fin a) (Fin b) = round_b64 (a * b)"
| "fmul NaN y = NaN"
| "fmul x NaN = NaN"
| "fmul (Fin a) PInf = (if a = 0 then NaN else if 0 < a then PInf else NInf)"
| "fmul (Fin a) NInf = (if a = 0 then NaN else if 0 < a then NInf else PInf)"
| "fmul PInf (Fin b) = (if b = 0 then NaN else if 0 < b then PInf else NInf)"
| "fmul NInf (Fin b) = (if b = 0 then NaN else if 0 < b then NInf else PInf)"
| "fmul PInf PInf = PInf"
| "fmul PInf NInf = NInf"
| "fmul NInf PInf = NInf"
| "fmul NInf NInf = PInf"

definition fdiv_const :: "float64 \<Rightarrow> real \<Rightarrow> float64" where
  "fdiv_const x d =
     (case x of
        Fin a \<Rightarrow> round_b64 (a / d)
      | PInf \<Rightarrow> (if 0 < d then PInf else NInf)
      | NInf \<Rightarrow> (if 0 < d then NInf else PInf)
      | NaN \<Rightarrow> NaN)"

fun fabs :: "float64 \<Rightarrow> float64" where
  "fabs (Fin a) = Fin \<bar>a\<bar>"
| "fabs PInf = PInf"
| "fabs NInf = PInf"
| "fabs NaN = NaN"

fun fge :: "float64 \<Rightarrow> float64 \<Rightarrow> bool" where
  "fge NaN y = False"
| "fge x NaN = False"
| "fge PInf y = True"
| "fge x NInf = True"
| "fge (Fin a) (Fin b) = (b \<le> a)"
| "fge (Fin a) PInf = False"
| "fge NInf y = False"

definition flt :: "float64 \<Rightarrow> float64 \<Rightarrow> bool" where
  "flt x y = (x \<noteq> NaN \<and> y \<noteq> NaN \<and> \<not> fge x y)"

text \<open>
  \<^verbatim>\<open>v % w\<close> on floats for a finite non-zero double \<open>w\<close>, as CPython's \<^verbatim>\<open>float_rem\<close>
  computes it: \<^verbatim>\<open>mod = fmod(v, w)\<close>, which is exact and has the sign of \<open>v\<close>; if
  \<open>mod\<close> is not zero and its sign differs from that of \<open>w\<close>, then \<^verbatim>\<open>mod += w\<close>, a
  rounded addition. An infinite or NaN \<open>v\<close> gives NaN.
\<close>

definition py_fmod :: "real \<Rightarrow> real \<Rightarrow> real" where
  "py_fmod x y = x - y * of_int (if 0 \<le> x / y then \<lfloor>x / y\<rfloor> else \<lceil>x / y\<rceil>)"

definition py_mod_b64 :: "float64 \<Rightarrow> real \<Rightarrow> float64" where
  "py_mod_b64 v wx =
     (case v of
        Fin vx \<Rightarrow>
          (let m = py_fmod vx wx
           in if m \<noteq> 0
              then (if (wx < 0) \<noteq> (m < 0) then round_b64 (m + wx) else Fin m)
              else Fin 0)
      | _ \<Rightarrow> NaN)"

text \<open>
  The constant \<^verbatim>\<open>math.pi\<close> (the double \<^verbatim>\<open>0x1.921fb54442d18p+1\<close>) and the literal
  \<^verbatim>\<open>1e-12\<close> (the double \<^verbatim>\<open>0x1.19799812dea11p-40\<close>).
\<close>

definition math_pi :: real where
  "math_pi = 884279719003555 / 2 ^ 48"

definition lit_1em12 :: real where
  "lit_1em12 = 4951760157141521 / 2 ^ 92"

text \<open>
  \<^verbatim>\<open>math.sin\<close>, \<^verbatim>\<open>math.cos\<close>, \<^verbatim>\<open>math.atan2\<close> and \<^verbatim>\<open>math.hypot\<close> call the C library, whose
  code is not part of the repository: the values it returns on finite arguments are a
  parameter of the model.
\<close>

record libm =
  m_sin :: "real \<Rightarrow> real"
  m_cos :: "real \<Rightarrow> real"
  m_atan2 :: "real \<Rightarrow> real \<Rightarrow> real"
  m_hypot :: "real \<Rightarrow> real \<Rightarrow> float64"

text \<open>
  What CPython adds around the C library. \<^verbatim>\<open>math.sin\<close> and \<^verbatim>\<open>math.cos\<close> raise
  \<^verbatim>\<open>ValueError\<close> on an infinity and return NaN on NaN. \<^verbatim>\<open>math.atan2\<close> never raises; it
  answers the cases with an infinity or with \<open>y = 0\<close> itself (zero is taken as \<^verbatim>\<open>+0.0\<close>).
  \<^verbatim>\<open>math.hypot\<close> (CPython 3.8 or later) never raises and answers infinities, NaN and
  two zeros itself. \<^verbatim>\<open>math.sqrt\<close> is correctly rounded and raises on a negative
  argument.
\<close>

definition py_sin :: "libm \<Rightarrow> float64 \<Rightarrow> error + float64" where
  "py_sin L x =
     (case x of
        Fin r \<Rightarrow> Inr (Fin (m_sin L r))
      | NaN \<Rightarrow> Inr NaN
      | _ \<Rightarrow> Inl (ValueError ''math domain error''))"

definition py_cos :: "libm \<Rightarrow> float64 \<Rightarrow> error + float64" where
  "py_cos L x =
     (case x of
        Fin r \<Rightarrow> Inr (Fin (m_cos L r))
      | NaN \<Rightarrow> Inr NaN
      | _ \<Rightarrow> Inl (ValueError ''math domain error''))"

fun py_atan2 :: "libm \<Rightarrow> float64 \<Rightarrow> float64 \<Rightarrow> float64" where
  "py_atan2 L NaN x = NaN"
| "py_atan2 L y NaN = NaN"
| "py_atan2 L PInf PInf = Fin (math_pi / 4)"
| "py_atan2 L NInf PInf = Fin (- (math_pi / 4))"
| "py_atan2 L PInf NInf = Fin (3 * math_pi / 4)"
| "py_atan2 L NInf NInf = Fin (- (3 * math_pi / 4))"
| "py_atan2 L PInf (Fin x) = Fin (math_pi / 2)"
| "py_atan2 L NInf (Fin x) = Fin (- (math_pi / 2))"
| "py_atan2 L (Fin y) PInf = Fin 0"
| "py_atan2 L (Fin y) NInf = (if 0 \<le> y then Fin math_pi else Fin (- math_pi))"
| "py_atan2 L (Fin y) (Fin x) =
     (if y = 0 then (if 0 \<le> x then Fin 0 else Fin math_pi) else Fin (m_atan2 L y x))"

fun py_hypot :: "libm \<Rightarrow> float64 \<Rightarrow> float64 \<Rightarrow> float64" where
  "py_hypot L PInf y = PInf"
| "py_hypot L NInf y = PInf"
| "py_hypot L x PInf = PInf"
| "py_hypot L x NInf = PInf"
| "py_hypot L NaN y = NaN"
| "py_hypot L x NaN = NaN"
| "py_hypot L (Fin x) (Fin y) = (if x = 0 \<and> y = 0 then Fin 0 else m_hypot L x y)"

definition py_sqrt_b64 :: "float64 \<Rightarrow> error + float64" where
  "py_sqrt_b64 x =
     (case x of
        Fin a \<Rightarrow> (if a < 0 then Inl (ValueError ''math domain error'') else Inr (round_b64 (sqrt a)))
      | PInf \<Rightarrow> Inr PInf
      | NInf \<Rightarrow> Inl (ValueError ''math domain error'')
      | NaN \<Rightarrow> Inr NaN)"

subsection \<open>Geomensura utils on doubles\<close>

definition d2r_b64 :: "float64 \<Rightarrow> float64" where
  "d2r_b64 deg = fdiv_const (fmul deg (Fin math_pi)) 180"

definition r2d_b64 :: "float64 \<Rightarrow> float64" where
  "r2d_b64 rad = fdiv_const (fmul rad (Fin 180)) math_pi"

definition wrap360_b64 :: "float64 \<Rightarrow> float64" where
  "wrap360_b64 a = (let a' = py_mod_b64 a 360 in if fge a' (Fin 0) then a' else fadd a' (Fin 360))"

fun mean_angle_loop_b64 ::
  "libm \<Rightarrow> float64 list \<Rightarrow> float64 \<Rightarrow> float64 \<Rightarrow> error + (float64 \<times> float64)" where
  "mean_angle_loop_b64 L [] s c = Inr (s, c)"
| "mean_angle_loop_b64 L (a # angles) s c =
     (let ar = d2r_b64 a
      in case py_sin L ar of
           Inl e \<Rightarrow> Inl e
         | Inr sin_ar \<Rightarrow>
             (case py_cos L ar of
                Inl e \<Rightarrow> Inl e
              | Inr cos_ar \<Rightarrow> mean_angle_loop_b64 L angles (fadd s sin_ar) (fadd c cos_ar)))"

definition mean_angle_deg_b64 :: "libm \<Rightarrow> float64 list \<Rightarrow> error + float64" where
  "mean_angle_deg_b64 L angles_deg =
     (case mean_angle_loop_b64 L angles_deg (Fin 0) (Fin 0) of
        Inl e \<Rightarrow> Inl e
      | Inr (s, c) \<Rightarrow>
          if flt (fabs s) (Fin lit_1em12) \<and> flt (fabs c) (Fin lit_1em12) then Inr (Fin 0)
          else Inr (wrap360_b64 (r2d_b64 (py_atan2 L s c))))"

text \<open>
  The dictionaries with the keys \<^verbatim>\<open>"X"\<close>, \<^verbatim>\<open>"Y"\<close>, \<^verbatim>\<open>"Z"\<close>, with floats as values.
\<close>

record xyz64 =
  X64 :: float64
  Y64 :: float64
  Z64 :: float64

definition xyz64_of_tuple :: "float64 \<times> float64 \<times> float64 \<Rightarrow> xyz64" where
  "xyz64_of_tuple t = (case t of (x, y, z) \<Rightarrow> \<lparr>X64 = x, Y64 = y, Z64 = z\<rparr>)"

definition azimut_xy_b64 :: "libm \<Rightarrow> xyz64 \<Rightarrow> xyz64 \<Rightarrow> float64" where
  "azimut_xy_b64 L cam pt =
     (let dx = fsub (X64 pt) (X64 cam);
          dy = fsub (Y64 pt) (Y64 cam)
      in wrap360_b64 (r2d_b64 (py_atan2 L dx dy)))"

definition inclinacion_b64 :: "libm \<Rightarrow> xyz64 \<Rightarrow> xyz64 \<Rightarrow> float64" where
  "inclinacion_b64 L cam pt =
     (let dx = fsub (X64 pt) (X64 cam);
          dy = fsub (Y64 pt) (Y64 cam);
          dz = fsub (Z64 pt) (Z64 cam);
          dh = py_hypot L dx dy
      in r2d_b64 (py_atan2 L dz dh))"

definition dist_geom_b64 :: "xyz64 \<Rightarrow> xyz64 \<Rightarrow> error + float64" where
  "dist_geom_b64 cam pt =
     (let dx = fsub (X64 pt) (X64 cam);
          dy = fsub (Y64 pt) (Y64 cam);
          dz = fsub (Z64 pt) (Z64 cam)
      in py_sqrt_b64 (fadd (fadd (fmul dx dx) (fmul dy dy)) (fmul dz dz)))"

definition calc_xyz_from_angles_b64 ::
  "libm \<Rightarrow> xyz64 \<Rightarrow> float64 \<Rightarrow> float64 \<Rightarrow> float64 \<Rightarrow> error + (float64 \<times> float64 \<times> float64)" where
  "calc_xyz_from_angles_b64 L cam ah_deg av_deg dist' =
     (let ah_r = d2r_b64 ah_deg;
          av_r = d2r_b64 av_deg
      in case py_cos L av_r of
           Inl e \<Rightarrow> Inl e
         | Inr cos_av \<Rightarrow>
             (let dh = fmul dist' cos_av
              in case py_sin L av_r of
                   Inl e \<Rightarrow> Inl e
                 | Inr sin_av \<Rightarrow>
                     (let dz = fmul dist' sin_av
                      in case py_sin L ah_r of
                           Inl e \<Rightarrow> Inl e
                         | Inr sin_ah \<Rightarrow>
                             (let dx = fmul dh sin_ah
                              in case py_cos L ah_r of
                                   Inl e \<Rightarrow> Inl e
                                 | Inr cos_ah \<Rightarrow>
                                     (let dy = fmul dh cos_ah;
                                          x = fadd (X64 cam) dx;
                                          y = fadd (Y64 cam) dy;
                                          z = fadd (Z64 cam) dz
                                      in Inr (x, y, z))))))"

subsection \<open>A C library to evaluate with\<close>

text \<open>
  The double nearest to \<open>2 * pi\<close>, which is what \<^verbatim>\<open>d2r(360.0)\<close> returns, and the value
  CPython returns for \<^verbatim>\<open>math.sin\<close> there, \<^verbatim>\<open>-2.4492935982947064e-16\<close>
  (\<^verbatim>\<open>-0x1.1a62633145c07p-52\<close>).
\<close>

definition two_pi_b64 :: real where
  "two_pi_b64 = 884279719003555 / 2 ^ 47"

definition sin_two_pi_b64 :: real where
  "sin_two_pi_b64 = - (4967757600021511 / 2 ^ 104)"

text \<open>
  A C library that rounds the exact function correctly, with the three values recorded
  that CPython returns on x86-64 Linux at the arguments the evaluation below meets:
  \<^verbatim>\<open>math.sin(6.283185307179586) = -2.4492935982947064e-16\<close>,
  \<^verbatim>\<open>math.cos(6.283185307179586) = 1.0\<close> and
  \<^verbatim>\<open>math.atan2(-2.4492935982947064e-16, 2.0) = -1.2246467991473532e-16\<close>.
\<close>

definition libm_observed :: libm where
  "libm_observed =
     \<lparr>m_sin = (\<lambda>x. if x = two_pi_b64 then sin_two_pi_b64 else round_fin (sin x)),
      m_cos = (\<lambda>x. if x = two_pi_b64 then 1 else round_fin (cos x)),
      m_atan2 = (\<lambda>y x. if y = sin_two_pi_b64 \<and> x = 2 then sin_two_pi_b64 / 2
                        else round_fin (atan2 y x)),
      m_hypot = (\<lambda>x y. round_b64 (hypot x y))\<rparr>"

section \<open>Example data\<close>

text \<open>
  The scenario of the spec: the camera at the origin, one reference due north and one due
  east at distance \<open>100\<close>, with the observed horizontal angles as parameters. It is used
  to evaluate the functions at concrete inputs.
\<close>

definition example_camera :: xyz where
  "example_camera = \<lparr>X = 0, Y = 0, Z = 0\<rparr>"

definition example_point :: "string \<Rightarrow> real \<Rightarrow> real \<Rightarrow> real \<Rightarrow> collimation_point" where
  "example_point n x y ah =
     \<lparr>X = x, Y = y, Z = 0, name = n, AH_obs = ah, AV_obs = 0, D_obs = Some 100\<rparr>"


definition config_180 :: config where
  "config_180 =
     \<lparr>camera = example_camera,
      collimation_points = [example_point ''PT1'' 0 100 180, example_point ''PT2'' 0 100 180]\<rparr>"

definition example_state :: state where
  "example_state =
     \<lparr>ajuste_ah = - 1, ajuste_av = 1 / 2, diagnostics = [], n_points_opt = Some 2, loaded = True\<rparr>"


section \<open>Properties of the exact layer\<close>

subsection \<open>The floored remainder and the two normalisations\<close>

lemma py_mod_range:
  assumes "0 < b"
  shows "0 \<le> py_mod a b" and "py_mod a b < b"
proof -
  have le: "real_of_int \<lfloor>a / b\<rfloor> \<le> a / b" by (rule of_int_floor_le)
  have lt: "a / b < real_of_int \<lfloor>a / b\<rfloor> + 1" by linarith
  from le assms have "real_of_int \<lfloor>a / b\<rfloor> * b \<le> a"
    by (simp only: pos_le_divide_eq)
  then show "0 \<le> py_mod a b"
    by (simp add: py_mod_def mult.commute)
  from lt assms have "a < (real_of_int \<lfloor>a / b\<rfloor> + 1) * b"
    by (simp only: pos_divide_less_eq)
  then show "py_mod a b < b"
    by (simp add: py_mod_def algebra_simps)
qed

lemma py_mod_id:
  assumes "0 \<le> a" and "a < b"
  shows "py_mod a b = a"
proof -
  from assms have "0 < b" by simp
  with assms have "\<lfloor>a / b\<rfloor> = 0"
    by (simp add: floor_eq_iff)
  then show ?thesis by (simp add: py_mod_def)
qed

lemma py_mod_shift:
  assumes "b \<noteq> 0"
  shows "py_mod (a + b * of_int k) b = py_mod a b"
proof -
  from assms have "(a + b * of_int k) / b = a / b + of_int k"
    by (simp add: add_divide_distrib)
  then have "\<lfloor>(a + b * of_int k) / b\<rfloor> = \<lfloor>a / b\<rfloor> + k"
    by simp
  then show ?thesis
    by (simp add: py_mod_def algebra_simps)
qed

lemma py_mod_self: "b \<noteq> 0 \<Longrightarrow> py_mod b b = 0"
  by (simp add: py_mod_def)

lemma wrap360_eq: "wrap360 a = py_mod a 360"
  using py_mod_range(1) [of 360 a] by (simp add: wrap360_def Let_def)


lemma wrap360_id: "0 \<le> a \<Longrightarrow> a < 360 \<Longrightarrow> wrap360 a = a"
  by (simp add: wrap360_eq py_mod_id)

lemma wrap360_shift: "wrap360 (a - 360) = wrap360 a"
  using py_mod_shift [of 360 a "- 1"] by (simp add: wrap360_eq)

lemma wrap360_m180: "wrap360 (- 180) = 180"
  using wrap360_shift [of 180] by (simp add: wrap360_id)

lemma wrap180_range: "- 180 \<le> wrap180 a" "wrap180 a < 180"
  using py_mod_range [of 360 "a + 180"] by (simp_all add: wrap180_def)

lemma wrap180_id: "- 180 \<le> a \<Longrightarrow> a < 180 \<Longrightarrow> wrap180 a = a"
  by (simp add: wrap180_def py_mod_id)



subsection \<open>Degrees, radians and the angle of a point in polar form\<close>

lemma r2d_d2r [simp]: "r2d (d2r a) = a"
  by (simp add: r2d_def d2r_def)

lemma d2r_diff: "d2r (a - b) = d2r a - d2r b"
  by (simp add: d2r_def diff_divide_distrib algebra_simps)

lemma d2r_360: "d2r 360 = 2 * pi"
  by (simp add: d2r_def)

lemma d2r_mono: "a < b \<Longrightarrow> d2r a < d2r b"
  by (simp add: d2r_def divide_strict_right_mono)

lemma d2r_mono_le: "a \<le> b \<Longrightarrow> d2r a \<le> d2r b"
  by (simp add: d2r_def divide_right_mono)

lemma d2r_180: "d2r 180 = pi" and d2r_90: "d2r 90 = pi / 2" and d2r_0: "d2r 0 = 0"
  and d2r_m90: "d2r (- 90) = - (pi / 2)" and d2r_m180: "d2r (- 180) = - pi"
  by (simp_all add: d2r_def)

lemma cos_neg_upper:
  assumes "pi / 2 < t" "t \<le> pi"
  shows "cos t < 0"
proof -
  have "cos t < cos (pi / 2)"
    using assms by (intro cos_monotone_0_pi) simp_all
  then show ?thesis by simp
qed

lemma cos_neg_lower:
  assumes "- pi < t" "t < - (pi / 2)"
  shows "cos t < 0"
proof -
  have "cos (- t) < 0"
    using assms by (intro cos_neg_upper) simp_all
  then show ?thesis by simp
qed

lemma sin_neg_lower:
  assumes "- pi < t" "t < 0"
  shows "sin t < 0"
proof -
  have "0 < sin (- t)"
    using assms by (intro sin_gt_zero) simp_all
  then show ?thesis by simp
qed

lemma tan_scale:
  assumes "r \<noteq> 0"
  shows "(r * sin t) / (r * cos t) = tan t"
  using assms by (simp add: tan_def)

lemma atan2_pos: "0 < x \<Longrightarrow> atan2 y x = arctan (y / x)"
  by (simp add: atan2_def)

lemma atan2_neg_nonneg: "x < 0 \<Longrightarrow> 0 \<le> y \<Longrightarrow> atan2 y x = arctan (y / x) + pi"
  by (simp add: atan2_def)

lemma atan2_neg_neg: "x < 0 \<Longrightarrow> y < 0 \<Longrightarrow> atan2 y x = arctan (y / x) - pi"
  by (simp add: atan2_def)


lemma atan2_polar:
  assumes r: "0 < r" and lo: "- pi < t" and hi: "t \<le> pi"
  shows "atan2 (r * sin t) (r * cos t) = t"
proof -
  from r have r0: "r \<noteq> 0" by simp
  have q: "(r * sin t) / (r * cos t) = tan t" by (rule tan_scale [OF r0])
  consider (mid) "- (pi / 2) < t" "t < pi / 2"
    | (top) "t = pi / 2"
    | (bot) "t = - (pi / 2)"
    | (left_up) "pi / 2 < t"
    | (left_down) "t < - (pi / 2)"
    by linarith
  then show ?thesis
  proof cases
    case mid
    then have "0 < cos t" by (rule cos_gt_zero_pi)
    with r have "0 < r * cos t" by simp
    then have "atan2 (r * sin t) (r * cos t) = arctan (tan t)"
      by (simp only: atan2_pos q)
    also have "\<dots> = t" using mid by (rule arctan_tan)
    finally show ?thesis .
  next
    case top
    show ?thesis unfolding top using r by (simp add: atan2_def)
  next
    case bot
    show ?thesis unfolding bot using r by (simp add: atan2_def)
  next
    case left_up
    with hi have "cos t < 0" by (intro cos_neg_upper)
    with r have neg: "r * cos t < 0" by (simp add: mult_pos_neg)
    from left_up hi have "0 \<le> sin t" by (intro sin_ge_zero) (use pi_gt_zero in linarith)+
    with r have nn: "0 \<le> r * sin t" by simp
    from neg nn have "atan2 (r * sin t) (r * cos t) = arctan (tan t) + pi"
      by (simp only: atan2_neg_nonneg q)
    also have "tan t = tan (t - pi)"
      using tan_periodic_pi [of "t - pi"] by simp
    also have "arctan (tan (t - pi)) = t - pi"
      using left_up hi by (intro arctan_tan) (use pi_gt_zero in linarith)+
    finally show ?thesis by simp
  next
    case left_down
    with lo have "cos t < 0" by (intro cos_neg_lower)
    with r have neg: "r * cos t < 0" by (simp add: mult_pos_neg)
    from left_down lo have "sin t < 0" by (intro sin_neg_lower) (use pi_gt_zero in linarith)+
    with r have sn: "r * sin t < 0" by (simp add: mult_pos_neg)
    from neg sn have "atan2 (r * sin t) (r * cos t) = arctan (tan t) - pi"
      by (simp only: atan2_neg_neg q)
    also have "tan t = tan (t + pi)"
      by (simp add: tan_periodic_pi)
    also have "arctan (tan (t + pi)) = t + pi"
      using left_down lo by (intro arctan_tan) (use pi_gt_zero in linarith)+
    finally show ?thesis by simp
  qed
qed

lemma azimuth_polar:
  assumes r: "0 < r" and A: "0 \<le> A" "A < 360"
  shows "wrap360 (r2d (atan2 (r * sin (d2r A)) (r * cos (d2r A)))) = A"
proof (cases "A \<le> 180")
  case True
  have "0 \<le> d2r A" using d2r_mono_le [OF A(1)] by (simp add: d2r_0)
  then have "- pi < d2r A" using pi_gt_zero by linarith
  moreover have "d2r A \<le> pi" using d2r_mono_le [OF True] by (simp add: d2r_180)
  ultimately have "atan2 (r * sin (d2r A)) (r * cos (d2r A)) = d2r A"
    using r by (intro atan2_polar)
  then show ?thesis using A by (simp add: wrap360_id)
next
  case False
  let ?t = "d2r (A - 360)"
  have t: "?t = d2r A - 2 * pi" by (simp add: d2r_diff d2r_360)
  have sc: "sin ?t = sin (d2r A)" "cos ?t = cos (d2r A)"
    unfolding t by (simp_all add: sin_diff cos_diff)
  from False have "- 180 < A - 360" by simp
  then have "- pi < ?t" using d2r_mono [of "- 180" "A - 360"] by (simp add: d2r_m180)
  moreover from A have "?t \<le> pi" using d2r_mono_le [of "A - 360" 180] by (simp add: d2r_180)
  ultimately have "atan2 (r * sin ?t) (r * cos ?t) = ?t"
    using r by (intro atan2_polar)
  then have "atan2 (r * sin (d2r A)) (r * cos (d2r A)) = ?t"
    by (simp only: sc)
  then have "wrap360 (r2d (atan2 (r * sin (d2r A)) (r * cos (d2r A)))) = wrap360 (A - 360)"
    by (simp only: r2d_d2r)
  also have "\<dots> = A" using A by (simp add: wrap360_shift wrap360_id)
  finally show ?thesis .
qed

lemma elevation_polar:
  assumes r: "0 < r" and E: "- 90 < E" "E < 90"
  shows "r2d (atan2 (r * sin (d2r E)) (r * cos (d2r E))) = E"
proof -
  have "- (pi / 2) < d2r E" using d2r_mono [OF E(1)] by (simp add: d2r_m90)
  moreover have "d2r E < pi / 2" using d2r_mono [OF E(2)] by (simp add: d2r_90)
  ultimately have "- pi < d2r E" "d2r E \<le> pi" using pi_gt_zero by linarith+
  then have "atan2 (r * sin (d2r E)) (r * cos (d2r E)) = d2r E"
    using r by (intro atan2_polar)
  then show ?thesis by simp
qed

lemma cos_d2r_pos:
  assumes E: "- 90 < E" "E < 90"
  shows "0 < cos (d2r E)"
proof -
  have "- (pi / 2) < d2r E" using d2r_mono [OF E(1)] by (simp add: d2r_m90)
  moreover have "d2r E < pi / 2" using d2r_mono [OF E(2)] by (simp add: d2r_90)
  ultimately show ?thesis by (rule cos_gt_zero_pi)
qed

lemma sin_cos_sq: "sin a * sin a + cos a * cos a = (1::real)"
  using sin_cos_squared_add [of a] by (simp only: power2_eq_square)

lemma hypot_polar:
  assumes h: "0 \<le> h"
  shows "hypot (h * sin a) (h * cos a) = h"
proof -
  have "(h * sin a) * (h * sin a) + (h * cos a) * (h * cos a)
        = (h * h) * (sin a * sin a + cos a * cos a)"
    by algebra
  then have eq: "(h * sin a) * (h * sin a) + (h * cos a) * (h * cos a) = h * h"
    by (simp only: sin_cos_sq mult_1_right)
  show ?thesis unfolding hypot_def eq using h by simp
qed

lemma sqrt_spherical:
  assumes "0 \<le> D"
  shows "sqrt ((D * cos e * sin a) * (D * cos e * sin a) + (D * cos e * cos a) * (D * cos e * cos a)
           + (D * sin e) * (D * sin e)) = D"
proof -
  have "(D * cos e * sin a) * (D * cos e * sin a) + (D * cos e * cos a) * (D * cos e * cos a)
           + (D * sin e) * (D * sin e)
        = (D * D) * (sin e * sin e + cos e * cos e * (sin a * sin a + cos a * cos a))"
    by algebra
  then have eq: "(D * cos e * sin a) * (D * cos e * sin a) + (D * cos e * cos a) * (D * cos e * cos a)
           + (D * sin e) * (D * sin e) = D * D"
    by (simp only: sin_cos_sq mult_1_right)
  show ?thesis unfolding eq using assms by simp
qed

text \<open>
  In exact arithmetic the two transforms are inverse to each other for a positive
  distance. (On doubles they are not: see \<open>roundtrip_b64_absorbed\<close> below.)
\<close>

lemma roundtrip_exact:
  assumes "0 \<le> A" "A < 360" "- 90 < E" "E < 90" "0 < D"
  shows "azimut_xy cam (xyz_of_tuple (calc_xyz_from_angles cam A E D)) = A
       \<and> inclinacion cam (xyz_of_tuple (calc_xyz_from_angles cam A E D)) = E
       \<and> dist_geom_xyz cam (xyz_of_tuple (calc_xyz_from_angles cam A E D)) = Inr D"
proof -
  let ?dh = "D * cos (d2r E)"
  have dh: "0 < ?dh" using assms cos_d2r_pos [of E] by simp
  have az: "azimut_xy cam (xyz_of_tuple (calc_xyz_from_angles cam A E D)) = A"
    using azimuth_polar [OF dh assms(1,2)]
    by (simp add: azimut_xy_def calc_xyz_from_angles_def xyz_of_tuple_def Let_def)
  have hy: "hypot (?dh * sin (d2r A)) (?dh * cos (d2r A)) = ?dh"
    using dh by (intro hypot_polar) simp
  have el: "inclinacion cam (xyz_of_tuple (calc_xyz_from_angles cam A E D)) = E"
    using elevation_polar [OF assms(5,3,4)]
    by (simp add: inclinacion_def calc_xyz_from_angles_def xyz_of_tuple_def Let_def hy)
  have di: "dist_geom_xyz cam (xyz_of_tuple (calc_xyz_from_angles cam A E D)) = Inr D"
    using sqrt_spherical [of D "d2r E" "d2r A"] assms(5)
    by (simp add: dist_geom_xyz_def calc_xyz_from_angles_def xyz_of_tuple_def Let_def py_sqrt_def
        not_less)
  from az el di show ?thesis by simp
qed

subsection \<open>C1: the round trip at distance zero\<close>


subsection \<open>The circular mean\<close>

lemma small_square:
  assumes "\<bar>x\<bar> < 1 / 10 ^ 12"
  shows "x * x < (1 / 4 :: real)"
proof -
  from assms have "\<bar>x\<bar> < 1 / 2" by simp
  then have "\<bar>x\<bar> * \<bar>x\<bar> < (1 / 2) * (1 / 2)"
    by (intro mult_strict_mono) simp_all
  then show ?thesis by (simp add: abs_mult_self_eq)
qed

lemma mean_angle_loop_replicate:
  "mean_angle_loop (replicate n a) s c = (s + real n * sin (d2r a), c + real n * cos (d2r a))"
  by (induction n arbitrary: s c) (simp_all add: Let_def algebra_simps)

lemma mean_angle_deg_replicate:
  assumes n: "0 < n" and A: "0 \<le> A" "A < 360"
  shows "mean_angle_deg (replicate n A) = A"
proof -
  let ?s = "real n * sin (d2r A)" and ?c = "real n * cos (d2r A)"
  have loop: "mean_angle_loop (replicate n A) 0 0 = (?s, ?c)"
    by (simp add: mean_angle_loop_replicate)
  have "?s * ?s + ?c * ?c = (real n * real n) * (sin (d2r A) * sin (d2r A) + cos (d2r A) * cos (d2r A))"
    by algebra
  then have sq: "?s * ?s + ?c * ?c = real n * real n"
    by (simp only: sin_cos_sq mult_1_right)
  from n have "1 \<le> real n" by simp
  then have "1 * 1 \<le> real n * real n" by (intro mult_mono) simp_all
  with sq have big: "1 \<le> ?s * ?s + ?c * ?c" by simp
  have nondeg: "\<not> (\<bar>?s\<bar> < 1 / 10 ^ 12 \<and> \<bar>?c\<bar> < 1 / 10 ^ 12)"
  proof
    assume "\<bar>?s\<bar> < 1 / 10 ^ 12 \<and> \<bar>?c\<bar> < 1 / 10 ^ 12"
    then have "?s * ?s < 1 / 4" "?c * ?c < 1 / 4" by (simp_all only: small_square)
    with big show False by linarith
  qed
  from n have rn: "0 < real n" by simp
  have "mean_angle_deg (replicate n A) = wrap360 (r2d (atan2 ?s ?c))"
    using nondeg by (simp only: mean_angle_deg_def loop prod.case if_False)
  also have "\<dots> = A" using rn A by (rule azimuth_polar)
  finally show ?thesis .
qed

subsection \<open>C9: the circular mean of no angles\<close>

text \<open>
  Claim C9. \<open>mean_angle_deg\<close> (the spec's circularMean) of the empty list is exactly \<open>0\<close>:
  both sums are \<open>0\<close>, so the degeneracy branch is taken and nothing is raised.
\<close>

theorem mean_angle_deg_empty:
  "mean_angle_loop [] 0 0 = (0, 0) \<and> mean_angle_deg [] = 0"
  by (simp add: mean_angle_deg_def)

subsection \<open>The calibration loop never raises\<close>

lemma dist_geom_xyz_ok: "\<exists>d. dist_geom_xyz cam pt = Inr d"
  by (simp add: dist_geom_xyz_def py_sqrt_def Let_def not_less)

lemma calibrate_point_ok:
  "\<exists>d. calibrate_point cam pt
        = Inr (wrap180 (azimut_xy cam pt - AH_obs pt), inclinacion cam pt - AV_obs pt, d)"
proof -
  obtain g where "dist_geom_xyz cam pt = Inr g"
    using dist_geom_xyz_ok by blast
  then show ?thesis by (simp add: calibrate_point_def Let_def)
qed

lemma calibrate_loop_ok:
  "\<exists>ds. length ds = length pts \<and>
     calibrate_loop cam pts deltas_ah deltas_av diags
       = Inr (deltas_ah @ map (\<lambda>pt. wrap180 (azimut_xy cam pt - AH_obs pt)) pts,
              deltas_av @ map (\<lambda>pt. inclinacion cam pt - AV_obs pt) pts,
              diags @ ds)"
proof (induction pts arbitrary: deltas_ah deltas_av diags)
  case Nil
  then show ?case by simp
next
  case (Cons pt pts)
  obtain d where d: "calibrate_point cam pt
        = Inr (wrap180 (azimut_xy cam pt - AH_obs pt), inclinacion cam pt - AV_obs pt, d)"
    using calibrate_point_ok by blast
  obtain ds where ds: "length ds = length pts"
    "calibrate_loop cam pts (deltas_ah @ [wrap180 (azimut_xy cam pt - AH_obs pt)])
        (deltas_av @ [inclinacion cam pt - AV_obs pt]) (diags @ [d])
       = Inr ((deltas_ah @ [wrap180 (azimut_xy cam pt - AH_obs pt)])
                @ map (\<lambda>pt. wrap180 (azimut_xy cam pt - AH_obs pt)) pts,
              (deltas_av @ [inclinacion cam pt - AV_obs pt])
                @ map (\<lambda>pt. inclinacion cam pt - AV_obs pt) pts,
              (diags @ [d]) @ ds)"
    using Cons.IH by blast
  have "length (d # ds) = length (pt # pts)" using ds(1) by simp
  moreover have "calibrate_loop cam (pt # pts) deltas_ah deltas_av diags
       = Inr (deltas_ah @ map (\<lambda>pt. wrap180 (azimut_xy cam pt - AH_obs pt)) (pt # pts),
              deltas_av @ map (\<lambda>pt. inclinacion cam pt - AV_obs pt) (pt # pts),
              diags @ (d # ds))"
    using d ds(2) by simp
  ultimately show ?case by blast
qed

lemma calibrate_ok:
  assumes "2 \<le> length (collimation_points cfg)"
  shows "\<exists>ds. length ds = length (collimation_points cfg) \<and> calibrate cfg =
     Inr \<lparr>ajuste_ah = wrap180 (mean_angle_deg (map (\<lambda>pt. wrap360 (wrap180
                 (azimut_xy (camera cfg) pt - AH_obs pt))) (collimation_points cfg))),
          ajuste_av = sum_list (map (\<lambda>pt. inclinacion (camera cfg) pt - AV_obs pt)
                 (collimation_points cfg)) / real (length (collimation_points cfg)),
          diagnostics = ds,
          n_points = length (collimation_points cfg)\<rparr>"
proof -
  obtain ds where ds: "length ds = length (collimation_points cfg)"
     "calibrate_loop (camera cfg) (collimation_points cfg) [] [] []
       = Inr ([] @ map (\<lambda>pt. wrap180 (azimut_xy (camera cfg) pt - AH_obs pt)) (collimation_points cfg),
              [] @ map (\<lambda>pt. inclinacion (camera cfg) pt - AV_obs pt) (collimation_points cfg),
              [] @ ds)"
    using calibrate_loop_ok by blast
  from assms have ne: "real (length (collimation_points cfg)) \<noteq> 0" by auto
  from assms have "\<not> length (collimation_points cfg) < 2" by simp
  then have "calibrate cfg =
     Inr \<lparr>ajuste_ah = wrap180 (mean_angle_deg (map (\<lambda>pt. wrap360 (wrap180
                 (azimut_xy (camera cfg) pt - AH_obs pt))) (collimation_points cfg))),
          ajuste_av = sum_list (map (\<lambda>pt. inclinacion (camera cfg) pt - AV_obs pt)
                 (collimation_points cfg)) / real (length (collimation_points cfg)),
          diagnostics = ds,
          n_points = length (collimation_points cfg)\<rparr>"
    using ds(2) ne by (simp add: calibrate_def Let_def py_truediv_def comp_def)
  with ds(1) show ?thesis by blast
qed

lemma calibrate_few:
  assumes "length (collimation_points cfg) < 2"
  shows "calibrate cfg
     = Inl (ValueError ''Se requieren al menos 2 puntos de colimacion para calibrar.'')"
  using assms by (simp add: calibrate_def Let_def)

lemma calibrate_one_point:
  "calibrate \<lparr>camera = cam, collimation_points = [pt]\<rparr>
     = Inl (ValueError ''Se requieren al menos 2 puntos de colimacion para calibrar.'')"
  by (simp add: calibrate_few)

subsection \<open>C3: calibration fails exactly on fewer than two points\<close>

text \<open>
  Claim C3. \<open>calibrate\<close> raises (the \<^verbatim>\<open>ValueError\<close> that the spec calls
  InsufficientDataError) if and only if the list of collimation points has length \<open>0\<close>
  or \<open>1\<close>, and that is the only exception it raises; with two or more points it returns
  a result, whose \<open>n_points\<close> is the number of points. The square root and the division
  of the body never raise.
\<close>

theorem calibrate_fails_iff_fewer_than_two:
  "(calibrate cfg = Inl e) =
     (length (collimation_points cfg) < 2
      \<and> e = ValueError ''Se requieren al menos 2 puntos de colimacion para calibrar.'')
   \<and> (\<exists>cal. calibrate cfg = Inr cal \<and> n_points cal = length (collimation_points cfg))
       = (2 \<le> length (collimation_points cfg))"
proof (cases "length (collimation_points cfg) < 2")
  case True
  then show ?thesis using calibrate_few [OF True] by auto
next
  case False
  then have two: "2 \<le> length (collimation_points cfg)" by simp
  from calibrate_ok [OF two] obtain cal where
    "calibrate cfg = Inr cal" "n_points cal = length (collimation_points cfg)"
    by force
  with False two show ?thesis by auto
qed

subsection \<open>C4: the range of wrap180\<close>

lemma azimut_example_pt1: "azimut_xy example_camera (example_point n 0 100 ah) = 0"
  by (simp add: azimut_xy_def example_camera_def example_point_def atan2_def r2d_def wrap360_id)


lemma calibrate_config_180: "\<exists>cal. calibrate config_180 = Inr cal \<and> ajuste_ah cal = - 180"
proof -
  have pts: "collimation_points config_180
      = [example_point ''PT1'' 0 100 180, example_point ''PT2'' 0 100 180]"
    and cam: "camera config_180 = example_camera"
    by (simp_all add: config_180_def)
  have len: "2 \<le> length (collimation_points config_180)" by (simp add: pts)
  have d: "wrap360 (wrap180 (azimut_xy example_camera (example_point n 0 100 180)
             - AH_obs (example_point n 0 100 180))) = 180" for n
    by (simp only: azimut_example_pt1) (simp add: example_point_def wrap180_id wrap360_m180)
  have m: "map (\<lambda>pt. wrap360 (wrap180 (azimut_xy (camera config_180) pt - AH_obs pt)))
             (collimation_points config_180) = replicate 2 180"
    by (simp only: pts cam list.map d) (simp add: numeral_2_eq_2)
  have mean: "mean_angle_deg (replicate 2 180) = 180"
    by (rule mean_angle_deg_replicate) simp_all
  from calibrate_ok [OF len] obtain ds where
    "calibrate config_180 =
     Inr \<lparr>ajuste_ah = wrap180 (mean_angle_deg (map (\<lambda>pt. wrap360 (wrap180
                 (azimut_xy (camera config_180) pt - AH_obs pt))) (collimation_points config_180))),
          ajuste_av = sum_list (map (\<lambda>pt. inclinacion (camera config_180) pt - AV_obs pt)
                 (collimation_points config_180)) / real (length (collimation_points config_180)),
          diagnostics = ds,
          n_points = length (collimation_points config_180)\<rparr>"
    by blast
  then have "\<exists>cal. calibrate config_180 = Inr cal \<and> ajuste_ah cal = wrap180 180"
    by (simp only: m mean) simp
  then show ?thesis by (simp add: wrap180_def py_mod_self)
qed

text \<open>
  Claim C4 says that \<open>wrap180 a\<close> (the spec's normalize180) lies in \<open>(-180, 180]\<close>, and
  so does \<open>ajuste_ah\<close>; the comment on \<^verbatim>\<open>ajuste_ah = wrap180(ajuste_ah)\<close> in the source
  says the same. The exact formula gives \<open>[-180, 180)\<close> instead (lemma \<open>wrap180_range\<close>): at
  \<open>a = 180\<close> the code returns \<open>-180\<close>, and two references due north that are both
  observed at \<open>180\<close> degrees calibrate to \<open>ajuste_ah = -180\<close>. Both values are outside the
  claimed interval.
\<close>

theorem wrap180_at_180:
  "wrap180 180 = - 180 \<and> \<not> (- 180 < wrap180 180 \<and> wrap180 180 \<le> 180)
   \<and> (\<exists>cal. calibrate config_180 = Inr cal \<and> ajuste_ah cal = - 180
         \<and> \<not> (- 180 < ajuste_ah cal \<and> ajuste_ah cal \<le> 180))"
proof -
  have "wrap180 180 = - 180" by (simp add: wrap180_def py_mod_self)
  moreover obtain cal where "calibrate config_180 = Inr cal" "ajuste_ah cal = - 180"
    using calibrate_config_180 by blast
  ultimately show ?thesis by simp
qed

subsection \<open>The routes\<close>


lemma api_calibrate_fail:
  assumes "fst (api_calibrate w) = Inl e"
  shows "snd (api_calibrate w) = w"
  using assms
  by (simp add: api_calibrate_def load_config_def Let_def split: sum.splits)

lemma ensure_state_fail:
  assumes "fst (ensure_state w) = Inl e"
  shows "snd (ensure_state w) = w"
  using assms
  by (simp add: ensure_state_def load_config_def Let_def split: sum.splits if_splits)

lemma api_set_config_fail:
  assumes "fst (api_set_config payload w) = Inl e"
  shows "STATE (snd (api_set_config payload w)) = STATE w"
  using assms
  by (simp add: api_set_config_def save_config_def load_config_def Let_def split: sum.splits)




subsection \<open>C7: the reconstruction formula\<close>



subsection \<open>C8: a failed calibration leaves the state untouched\<close>

text \<open>
  Claim C8. If \<open>api_calibrate\<close> ends in an exception, the world it leaves is the world
  it started in: \<open>STATE\<close> keeps every field, and a later \<open>api_compute_point\<close> answers
  as it would have before. (Lemmas \<open>ensure_state_fail\<close> and \<open>api_set_config_fail\<close> say
  the same of the other two routes that calibrate.)
\<close>

theorem failed_calibration_keeps_state:
  assumes "fst (api_calibrate w) = Inl e"
  shows "snd (api_calibrate w) = w
       \<and> STATE (snd (api_calibrate w)) = STATE w
       \<and> api_compute_point payload (snd (api_calibrate w)) = api_compute_point payload w"
  using api_calibrate_fail [OF assms] by simp

text \<open>
  The theorem on a configuration with a single reference, where \<open>calibrate\<close> raises, and
  a loaded state with the bias \<open>-1\<close>.
\<close>

theorem failed_calibration_keeps_state_witness:
  "fst (api_calibrate \<lparr>config_json = Inr \<lparr>camera = example_camera,
           collimation_points = [example_point ''PT1'' 0 100 1]\<rparr>, STATE = example_state\<rparr>)
     = Inl (ValueError ''Se requieren al menos 2 puntos de colimacion para calibrar.'')
   \<and> snd (api_calibrate \<lparr>config_json = Inr \<lparr>camera = example_camera,
           collimation_points = [example_point ''PT1'' 0 100 1]\<rparr>, STATE = example_state\<rparr>)
     = \<lparr>config_json = Inr \<lparr>camera = example_camera,
           collimation_points = [example_point ''PT1'' 0 100 1]\<rparr>, STATE = example_state\<rparr>
   \<and> ajuste_ah (STATE (snd (api_calibrate \<lparr>config_json = Inr \<lparr>camera = example_camera,
           collimation_points = [example_point ''PT1'' 0 100 1]\<rparr>, STATE = example_state\<rparr>))) = - 1"
proof -
  let ?w = "\<lparr>config_json = Inr \<lparr>camera = example_camera,
           collimation_points = [example_point ''PT1'' 0 100 1]\<rparr>, STATE = example_state\<rparr>"
  have f: "fst (api_calibrate ?w)
     = Inl (ValueError ''Se requieren al menos 2 puntos de colimacion para calibrar.'')"
    by (simp add: api_calibrate_def load_config_def calibrate_one_point)
  have "ajuste_ah (STATE ?w) = - 1" by (simp add: example_state_def)
  with failed_calibration_keeps_state [OF f] f show ?thesis by simp
qed

subsection \<open>C2: calibration with a uniform offset of five degrees\<close>






section \<open>Properties of the binary64 layer\<close>

subsection \<open>Rounding\<close>

lemma round_half_even_near:
  assumes "\<bar>t - of_int n\<bar> < 1 / 2"
  shows "round_half_even t = n"
proof -
  from assms have lo: "of_int n - 1 / 2 < t" and hi: "t < of_int n + 1 / 2" by linarith+
  consider (ge) "of_int n \<le> t" | (lt) "t < of_int n" by linarith
  then show ?thesis
  proof cases
    case ge
    with hi have "\<lfloor>t\<rfloor> = n" by (simp add: floor_eq_iff)
    with hi show ?thesis by (simp add: round_half_even_def Let_def)
  next
    case lt
    with lo have f: "\<lfloor>t\<rfloor> = n - 1" by (simp add: floor_eq_iff)
    from lo have "1 / 2 < t - of_int (n - 1)" by simp
    with f show ?thesis by (simp add: round_half_even_def Let_def)
  qed
qed

lemma round_half_even_le:
  assumes "t \<le> of_int N"
  shows "round_half_even t \<le> N"
proof -
  from assms have le: "\<lfloor>t\<rfloor> \<le> N" by (simp add: floor_le_iff) 
  show ?thesis
  proof (cases "\<lfloor>t\<rfloor> = N")
    case True
    then have "of_int N \<le> t" using of_int_floor_le [of t] by simp
    with assms have "t = of_int N" by simp
    then show ?thesis by (simp add: round_half_even_def Let_def)
  next
    case False
    with le have "\<lfloor>t\<rfloor> + 1 \<le> N" by simp
    then show ?thesis by (auto simp: round_half_even_def Let_def)
  qed
qed

lemma round_half_even_ge:
  assumes "of_int N \<le> t"
  shows "N \<le> round_half_even t"
proof -
  from assms have "N \<le> \<lfloor>t\<rfloor>" by (simp add: le_floor_iff)
  then show ?thesis by (auto simp: round_half_even_def Let_def)
qed

lemma floor_log2_eq:
  assumes "2 powr of_int k \<le> \<bar>x\<bar>" "\<bar>x\<bar> < 2 powr of_int (k + 1)"
  shows "\<lfloor>log 2 \<bar>x\<bar>\<rfloor> = k"
proof -
  have pos: "0 < \<bar>x\<bar>" using assms(1) powr_gt_zero [of 2 "of_int k"] by linarith
  have "of_int k \<le> log 2 \<bar>x\<bar>" using assms(1) pos by (simp add: le_log_iff)
  moreover have "log 2 \<bar>x\<bar> < of_int (k + 1)" using assms(2) pos by (simp add: log_less_iff)
  ultimately show ?thesis by (simp add: floor_eq_iff)
qed

lemma round_fin_eval:
  assumes "2 powr of_int k \<le> \<bar>x\<bar>" "\<bar>x\<bar> < 2 powr of_int (k + 1)" "- 1022 \<le> k"
    and "q = 2 powr of_int (k - 52)"
    and "\<bar>x / q - of_int n\<bar> < 1 / 2"
  shows "round_fin x = of_int n * q"
proof -
  have "x \<noteq> 0" using assms(1) powr_gt_zero [of 2 "of_int k"] by auto
  moreover have "quantum x = q"
    using floor_log2_eq [OF assms(1,2)] assms(3,4) by (simp add: quantum_def max_def)
  ultimately show ?thesis
    using round_half_even_near [OF assms(5)] by (simp add: round_fin_def)
qed

lemma round_fin_0 [simp]: "round_fin 0 = 0"
  by (simp add: round_fin_def)

lemma round_b64_0 [simp]: "round_b64 0 = Fin 0"
  by (simp add: round_b64_def)

lemma round_fin_bound:
  assumes y: "\<bar>y\<bar> \<le> 2 powr of_int j" and j: "- 1022 \<le> j"
  shows "\<bar>round_fin y\<bar> \<le> 2 powr of_int j"
proof (cases "y = 0")
  case True
  then show ?thesis by simp
next
  case False
  define e where "e = max \<lfloor>log 2 \<bar>y\<bar>\<rfloor> (- 1022) - 52"
  define q :: real where "q = 2 powr of_int e"
  define N :: int where "N = 2 ^ nat (j - e)"
  have q: "0 < q" by (simp add: q_def)
  from False have pos: "0 < \<bar>y\<bar>" by simp
  have "log 2 \<bar>y\<bar> \<le> of_int j" using y pos by (simp add: log_le_iff)
  then have "\<lfloor>log 2 \<bar>y\<bar>\<rfloor> \<le> j" by (simp add: floor_le_iff)
  with j have ej: "e \<le> j" by (simp add: e_def)
  have "2 powr of_int j = 2 powr of_int (j - e) * q"
    by (simp add: q_def powr_add [symmetric])
  also have "(2::real) powr of_int (j - e) = of_int N"
    using ej powr_int [of "2::real" "j - e"] by (simp add: N_def)
  finally have B: "2 powr of_int j = of_int N * q" .
  from y have "- (of_int N * q) \<le> y" "y \<le> of_int N * q" unfolding B by linarith+
  with q have "of_int (- N) \<le> y / q" "y / q \<le> of_int N"
    by (simp_all add: pos_le_divide_eq pos_divide_le_eq)
  then have "- N \<le> round_half_even (y / q)" "round_half_even (y / q) \<le> N"
    by (simp_all only: round_half_even_ge round_half_even_le)
  then have "\<bar>real_of_int (round_half_even (y / q))\<bar> \<le> of_int N"
    by linarith
  then have "\<bar>real_of_int (round_half_even (y / q)) * q\<bar> \<le> of_int N * q"
    using q by (simp add: abs_mult)
  moreover have "round_fin y = of_int (round_half_even (y / q)) * q"
    using False by (simp add: round_fin_def quantum_def q_def e_def)
  ultimately show ?thesis by (simp only: B)
qed

lemma round_b64_fin:
  assumes "\<bar>y\<bar> \<le> 2 ^ 1023"
  shows "round_b64 y = Fin (round_fin y)" and "\<bar>round_fin y\<bar> \<le> 2 ^ 1023"
proof -
  have p: "(2::real) powr of_int 1023 = 2 ^ 1023"
    by (simp add: powr_int)
  from assms have "\<bar>y\<bar> \<le> 2 powr of_int 1023" by (simp only: p)
  then have "\<bar>round_fin y\<bar> \<le> 2 powr of_int 1023"
    by (rule round_fin_bound) simp
  then show b: "\<bar>round_fin y\<bar> \<le> 2 ^ 1023" by (simp only: p)
  have "(2::real) ^ 1023 < 2 ^ 1024" by simp
  with b have "\<not> 2 ^ 1024 \<le> \<bar>round_fin y\<bar>" by linarith
  then show "round_b64 y = Fin (round_fin y)" by (simp add: round_b64_def Let_def)
qed

lemma round_b64_eval:
  assumes "2 powr of_int k \<le> \<bar>x\<bar>" "\<bar>x\<bar> < 2 powr of_int (k + 1)" "- 1022 \<le> k" "k < 1023"
    and "q = 2 powr of_int (k - 52)"
    and "\<bar>x / q - of_int n\<bar> < 1 / 2"
  shows "round_b64 x = Fin (of_int n * q)"
proof -
  have r: "round_fin x = of_int n * q"
    using assms(1,2,3,5,6) by (rule round_fin_eval)
  have "2 powr of_int (k + 1) \<le> (2::real) powr of_int 1023"
    using assms(4) by (intro powr_mono) simp_all
  also have "\<dots> = 2 ^ 1023" by (simp add: powr_int)
  finally have "\<bar>x\<bar> \<le> 2 ^ 1023" using assms(2) by linarith
  then show ?thesis using round_b64_fin(1) r by simp
qed

lemma round_fin_1: "round_fin 1 = 1"
proof -
  have "round_fin 1 = of_int (2 ^ 52) * (1 / 2 ^ 52)"
    by (rule round_fin_eval [where k = 0]) (simp_all add: powr_minus field_simps)
  then show ?thesis by simp
qed

lemma is_b64_small_int:
  "is_b64 1" "is_b64 2" "is_b64 3"
proof -
  have "round_fin 1 = of_int (2 ^ 52) * (1 / 2 ^ 52)"
    by (rule round_fin_eval [where k = 0]) (simp_all add: powr_minus field_simps)
  then show "is_b64 1" by (simp add: is_b64_def round_b64_def)
  have "round_fin 2 = of_int (2 ^ 52) * (1 / 2 ^ 51)"
    by (rule round_fin_eval [where k = 1]) (simp_all add: powr_minus field_simps)
  then show "is_b64 2" by (simp add: is_b64_def round_b64_def)
  have "round_fin 3 = of_int (3 * 2 ^ 51) * (1 / 2 ^ 51)"
    by (rule round_fin_eval [where k = 1]) (simp_all add: powr_minus field_simps)
  then show "is_b64 3" by (simp add: is_b64_def round_b64_def)
qed

lemma round_1_2: "round_b64 1 = Fin 1" "round_b64 2 = Fin 2"
  using is_b64_small_int by (simp_all add: is_b64_def)


lemma py_fmod_small: "\<bar>x\<bar> < y \<Longrightarrow> py_fmod x y = x"
proof -
  assume a: "\<bar>x\<bar> < y"
  then have y: "0 < y" by linarith
  show ?thesis
  proof (cases "0 \<le> x")
    case True
    with a y have "\<lfloor>x / y\<rfloor> = 0" by (simp add: floor_eq_iff)
    with True y show ?thesis by (simp add: py_fmod_def)
  next
    case False
    with a y have "\<lceil>x / y\<rceil> = 0" by (simp add: ceiling_eq_iff field_simps)
    moreover from False y have "\<not> 0 \<le> x / y" by (simp add: field_simps)
    ultimately show ?thesis by (simp add: py_fmod_def)
  qed
qed

subsection \<open>C6: wrap360 on doubles\<close>

lemma round_360_minus: "round_b64 (360 - 1 / 2 ^ 70) = Fin 360"
proof -
  have "round_fin (360 - 1 / 2 ^ 70) = of_int (360 * 2 ^ 44) * (1 / 2 ^ 44)"
    by (rule round_fin_eval [where k = 8]) (simp_all add: powr_minus field_simps)
  then show ?thesis by (simp add: round_b64_def)
qed

text \<open>
  Claim C6 says that \<open>wrap360 a\<close> (the spec's normalize360) lies in \<open>[0, 360)\<close> and that
  \<open>wrap360 (wrap360 a) = wrap360 a\<close>. The exact remainder does (lemmas \<open>wrap360_range\<close>
  and \<open>wrap360_id\<close>), the code does not: at the double \<open>a = -2^-70\<close>, \<^verbatim>\<open>fmod\<close> leaves
  \<open>a\<close>, the sum \<open>a + 360\<close> is rounded to \<open>360\<close>, and \<^verbatim>\<open>wrap360\<close> returns \<open>360.0\<close>, outside
  the interval; applied once more it returns \<open>0.0\<close>, so it is not idempotent there.
\<close>

theorem wrap360_b64_tiny_negative:
  "wrap360_b64 (Fin (- (1 / 2 ^ 70))) = Fin 360
   \<and> wrap360_b64 (Fin 360) = Fin 0
   \<and> wrap360_b64 (wrap360_b64 (Fin (- (1 / 2 ^ 70)))) \<noteq> wrap360_b64 (Fin (- (1 / 2 ^ 70)))"
proof -
  have m: "py_fmod (- (1 / 2 ^ 70)) 360 = - (1 / 2 ^ 70)"
    by (rule py_fmod_small) simp
  have pm: "py_mod_b64 (Fin (- (1 / 2 ^ 70))) 360 = Fin 360"
    using m round_360_minus by (simp add: py_mod_b64_def Let_def)
  have a: "wrap360_b64 (Fin (- (1 / 2 ^ 70))) = Fin 360"
    using pm by (simp add: wrap360_b64_def Let_def)
  have "py_fmod 360 360 = 0" by (simp add: py_fmod_def)
  then have "py_mod_b64 (Fin 360) 360 = Fin 0"
    by (simp add: py_mod_b64_def Let_def)
  then have b: "wrap360_b64 (Fin 360) = Fin 0"
    by (simp add: wrap360_b64_def Let_def)
  from a b show ?thesis by simp
qed

subsection \<open>C10: forward transform at distance zero\<close>

lemma math_pi_bounds: "0 < math_pi" "math_pi \<le> 4"
  by (simp_all add: math_pi_def)

lemma d2r_b64_fin:
  assumes "\<bar>a\<bar> \<le> 2 ^ 1021"
  shows "\<exists>r. d2r_b64 (Fin a) = Fin r"
proof -
  have "\<bar>a * math_pi\<bar> = \<bar>a\<bar> * math_pi"
    using math_pi_bounds(1) by (simp add: abs_mult)
  also have "\<dots> \<le> 2 ^ 1021 * 4"
    using assms math_pi_bounds by (intro mult_mono) simp_all
  also have "\<dots> = (2::real) ^ 1023" by simp
  finally have b: "\<bar>a * math_pi\<bar> \<le> 2 ^ 1023" .
  have m: "round_b64 (a * math_pi) = Fin (round_fin (a * math_pi))"
    by (rule round_b64_fin(1) [OF b])
  have "\<bar>round_fin (a * math_pi) / 180\<bar> \<le> \<bar>round_fin (a * math_pi)\<bar>"
    by simp
  also have "\<dots> \<le> 2 ^ 1023" by (rule round_b64_fin(2) [OF b])
  finally have "round_b64 (round_fin (a * math_pi) / 180)
      = Fin (round_fin (round_fin (a * math_pi) / 180))"
    by (rule round_b64_fin(1))
  then show ?thesis by (simp add: d2r_b64_def m fdiv_const_def)
qed







subsection \<open>C1: the round trip on doubles\<close>

lemma fsub_self: "fsub (Fin x) (Fin x) = Fin 0"
  by (simp add: fsub_def)

lemma r2d_b64_0: "r2d_b64 (Fin 0) = Fin 0"
  by (simp add: r2d_b64_def fdiv_const_def)

lemma wrap360_b64_0: "wrap360_b64 (Fin 0) = Fin 0"
  by (simp add: wrap360_b64_def py_mod_b64_def py_fmod_def Let_def)

lemma readback_at_camera:
  "dist_geom_b64 \<lparr>X64 = Fin x, Y64 = Fin y, Z64 = Fin z\<rparr>
       \<lparr>X64 = Fin x, Y64 = Fin y, Z64 = Fin z\<rparr> = Inr (Fin 0)"
  "azimut_xy_b64 L \<lparr>X64 = Fin x, Y64 = Fin y, Z64 = Fin z\<rparr>
       \<lparr>X64 = Fin x, Y64 = Fin y, Z64 = Fin z\<rparr> = Fin 0"
  "inclinacion_b64 L \<lparr>X64 = Fin x, Y64 = Fin y, Z64 = Fin z\<rparr>
       \<lparr>X64 = Fin x, Y64 = Fin y, Z64 = Fin z\<rparr> = Fin 0"
  by (simp_all add: dist_geom_b64_def azimut_xy_b64_def inclinacion_b64_def fsub_self
      py_sqrt_b64_def r2d_b64_0 wrap360_b64_0)



subsection \<open>A positive distance that rounding absorbs\<close>

lemma powr_m70: "(2::real) powr of_int (- 70) = 1 / 2 ^ 70"
  using powr_int [of "2::real" "- 70"] by simp

lemma round_small:
  assumes "\<bar>y\<bar> \<le> 1 / 2 ^ 70"
  shows "\<exists>r. round_b64 y = Fin r \<and> \<bar>r\<bar> \<le> 1 / 2 ^ 70"
proof -
  from assms have "\<bar>y\<bar> \<le> 2 powr of_int (- 70)" by (simp only: powr_m70)
  then have "\<bar>round_fin y\<bar> \<le> 2 powr of_int (- 70)"
    by (rule round_fin_bound) simp
  then have b: "\<bar>round_fin y\<bar> \<le> 1 / 2 ^ 70" by (simp only: powr_m70)
  have "(1::real) / 2 ^ 70 \<le> 2 ^ 1023" by simp
  with assms have "\<bar>y\<bar> \<le> 2 ^ 1023" by linarith
  then have "round_b64 y = Fin (round_fin y)" by (rule round_b64_fin(1))
  with b show ?thesis by blast
qed

lemma fmul_small:
  assumes "\<bar>a\<bar> \<le> 1 / 2 ^ 70" "\<bar>b\<bar> \<le> 1"
  shows "\<exists>r. fmul (Fin a) (Fin b) = Fin r \<and> \<bar>r\<bar> \<le> 1 / 2 ^ 70"
proof -
  have "\<bar>a * b\<bar> = \<bar>a\<bar> * \<bar>b\<bar>" by (simp add: abs_mult)
  also have "\<dots> \<le> (1 / 2 ^ 70) * 1"
    using assms by (intro mult_mono) simp_all
  finally have "\<bar>a * b\<bar> \<le> 1 / 2 ^ 70" by simp
  then show ?thesis using round_small by simp
qed

lemma absorb_1:
  assumes "\<bar>t\<bar> \<le> 1 / 2 ^ 70"
  shows "fadd (Fin 1) (Fin t) = Fin 1"
proof -
  have r: "round_fin (1 + t) = 1"
  proof (cases "0 \<le> t")
    case True
    have "round_fin (1 + t) = of_int (2 ^ 52) * (1 / 2 ^ 52)"
      using assms True
      by (intro round_fin_eval [where k = 0]) (simp_all add: powr_minus field_simps)
    then show ?thesis by simp
  next
    case False
    have "round_fin (1 + t) = of_int (2 ^ 53) * (1 / 2 ^ 53)"
      using assms False
      by (intro round_fin_eval [where k = "- 1"]) (simp_all add: powr_minus field_simps)
    then show ?thesis by simp
  qed
  then show ?thesis by (simp add: round_b64_def)
qed

lemma absorb_2:
  assumes "\<bar>t\<bar> \<le> 1 / 2 ^ 70"
  shows "fadd (Fin 2) (Fin t) = Fin 2"
proof -
  have r: "round_fin (2 + t) = 2"
  proof (cases "0 \<le> t")
    case True
    have "round_fin (2 + t) = of_int (2 ^ 52) * (1 / 2 ^ 51)"
      using assms True
      by (intro round_fin_eval [where k = 1]) (simp_all add: powr_minus field_simps)
    then show ?thesis by simp
  next
    case False
    have "round_fin (2 + t) = of_int (2 ^ 53) * (1 / 2 ^ 52)"
      using assms False
      by (intro round_fin_eval [where k = 0]) (simp_all add: powr_minus field_simps)
    then show ?thesis by simp
  qed
  then show ?thesis by (simp add: round_b64_def)
qed

lemma absorb_3:
  assumes "\<bar>t\<bar> \<le> 1 / 2 ^ 70"
  shows "fadd (Fin 3) (Fin t) = Fin 3"
proof -
  have "round_fin (3 + t) = of_int (3 * 2 ^ 51) * (1 / 2 ^ 51)"
    using assms
    by (intro round_fin_eval [where k = 1]) (simp_all add: powr_minus field_simps)
  then have "round_fin (3 + t) = 3" by simp
  then show ?thesis by (simp add: round_b64_def)
qed

lemma calc_xyz_b64_absorbed:
  assumes s: "\<And>r. \<bar>m_sin L r\<bar> \<le> 1" and c: "\<And>r. \<bar>m_cos L r\<bar> \<le> 1"
    and "\<bar>ah\<bar> \<le> 2 ^ 1021" "\<bar>av\<bar> \<le> 2 ^ 1021"
  shows "calc_xyz_from_angles_b64 L \<lparr>X64 = Fin 1, Y64 = Fin 2, Z64 = Fin 3\<rparr>
           (Fin ah) (Fin av) (Fin (1 / 2 ^ 70))
         = Inr (Fin 1, Fin 2, Fin 3)"
proof -
  obtain ah_r where ah: "d2r_b64 (Fin ah) = Fin ah_r" using d2r_b64_fin [OF assms(3)] by blast
  obtain av_r where av: "d2r_b64 (Fin av) = Fin av_r" using d2r_b64_fin [OF assms(4)] by blast
  have d: "\<bar>1 / 2 ^ 70 :: real\<bar> \<le> 1 / 2 ^ 70" by simp
  obtain dh where dh: "fmul (Fin (1 / 2 ^ 70)) (Fin (m_cos L av_r)) = Fin dh" "\<bar>dh\<bar> \<le> 1 / 2 ^ 70"
    using fmul_small [OF d c] by blast
  obtain dz where dz: "fmul (Fin (1 / 2 ^ 70)) (Fin (m_sin L av_r)) = Fin dz" "\<bar>dz\<bar> \<le> 1 / 2 ^ 70"
    using fmul_small [OF d s] by blast
  obtain dx where dx: "fmul (Fin dh) (Fin (m_sin L ah_r)) = Fin dx" "\<bar>dx\<bar> \<le> 1 / 2 ^ 70"
    using fmul_small [OF dh(2) s] by blast
  obtain dy where dy: "fmul (Fin dh) (Fin (m_cos L ah_r)) = Fin dy" "\<bar>dy\<bar> \<le> 1 / 2 ^ 70"
    using fmul_small [OF dh(2) c] by blast
  show ?thesis
    unfolding calc_xyz_from_angles_b64_def
    by (simp only: ah av py_sin_def py_cos_def Let_def float64.case sum.case dh(1) dz(1) dx(1) dy(1)
        absorb_1 [OF dx(2)] absorb_2 [OF dy(2)] absorb_3 [OF dz(2)] xyz64.simps)
qed

text \<open>
  With the camera at \<open>(1, 2, 3)\<close> and the positive distance \<open>2^-70\<close>, every offset is
  at most \<open>2^-70\<close> in magnitude and is absorbed when it is added to the camera's
  coordinates: the point returned is the camera again, and the angles read back are
  \<open>0\<close> as they are at distance zero. This holds for every C library whose sine and cosine
  stay within \<open>[-1, 1]\<close>.
\<close>

lemma roundtrip_b64_absorbed:
  assumes "\<And>r. \<bar>m_sin L r\<bar> \<le> 1" and "\<And>r. \<bar>m_cos L r\<bar> \<le> 1"
    and "0 \<le> A" "A < 360" "- 90 < E" "E < 90"
  shows "\<exists>P. calc_xyz_from_angles_b64 L \<lparr>X64 = Fin 1, Y64 = Fin 2, Z64 = Fin 3\<rparr>
               (Fin A) (Fin E) (Fin (1 / 2 ^ 70)) = Inr P
       \<and> azimut_xy_b64 L \<lparr>X64 = Fin 1, Y64 = Fin 2, Z64 = Fin 3\<rparr> (xyz64_of_tuple P) = Fin 0
       \<and> inclinacion_b64 L \<lparr>X64 = Fin 1, Y64 = Fin 2, Z64 = Fin 3\<rparr> (xyz64_of_tuple P) = Fin 0"
proof -
  have "\<bar>A\<bar> \<le> 360" "\<bar>E\<bar> \<le> 90" using assms(3-6) by linarith+
  moreover have "(360::real) \<le> 2 ^ 1021" "(90::real) \<le> 2 ^ 1021" by simp_all
  ultimately have "\<bar>A\<bar> \<le> 2 ^ 1021" "\<bar>E\<bar> \<le> 2 ^ 1021" by linarith+
  then have "calc_xyz_from_angles_b64 L \<lparr>X64 = Fin 1, Y64 = Fin 2, Z64 = Fin 3\<rparr>
               (Fin A) (Fin E) (Fin (1 / 2 ^ 70)) = Inr (Fin 1, Fin 2, Fin 3)"
    using assms(1,2) by (intro calc_xyz_b64_absorbed)
  then show ?thesis
    by (simp add: xyz64_of_tuple_def readback_at_camera)
qed

subsection \<open>C5: the circular mean of 0 and 360 on doubles\<close>

lemma d2r_b64_0: "d2r_b64 (Fin 0) = Fin 0"
  by (simp add: d2r_b64_def fdiv_const_def)

lemma mul_360_pi: "round_b64 (360 * math_pi) = Fin (4974073419394997 / 2 ^ 42)"
proof -
  have "round_b64 (360 * math_pi) = Fin (of_int 4974073419394997 * (1 / 2 ^ 42))"
    by (rule round_b64_eval [where k = 10])
       (simp_all add: math_pi_def powr_minus field_simps)
  then show ?thesis by simp
qed

lemma div_180: "round_b64 (4974073419394997 / 2 ^ 42 / 180) = Fin two_pi_b64"
proof -
  have "round_b64 (4974073419394997 / 2 ^ 42 / 180) = Fin (of_int 7074237752028440 * (1 / 2 ^ 50))"
    by (rule round_b64_eval [where k = 2])
       (simp_all add: powr_minus field_simps)
  then show ?thesis by (simp add: two_pi_b64_def)
qed

lemma d2r_b64_360: "d2r_b64 (Fin 360) = Fin two_pi_b64"
  using mul_360_pi div_180 by (simp add: d2r_b64_def fdiv_const_def)

lemma round_sin_two_pi: "round_b64 sin_two_pi_b64 = Fin sin_two_pi_b64"
proof -
  have "round_b64 sin_two_pi_b64 = Fin (of_int (- 4967757600021511) * (1 / 2 ^ 104))"
    by (rule round_b64_eval [where k = "- 52"])
       (simp_all add: sin_two_pi_b64_def powr_minus field_simps)
  then show ?thesis by (simp add: sin_two_pi_b64_def)
qed

lemma mul_180: "round_b64 (sin_two_pi_b64 / 2 * 180) = Fin (- (3492954562515125 / 2 ^ 97))"
proof -
  have "round_b64 (sin_two_pi_b64 / 2 * 180) = Fin (of_int (- 6985909125030250) * (1 / 2 ^ 98))"
    by (rule round_b64_eval [where k = "- 46"])
       (simp_all add: sin_two_pi_b64_def powr_minus field_simps)
  then show ?thesis by simp
qed

lemma div_pi: "round_b64 (- (3492954562515125 / 2 ^ 97) / math_pi) = Fin (- (8894735753914735 / 2 ^ 100))"
proof -
  have "round_b64 (- (3492954562515125 / 2 ^ 97) / math_pi)
      = Fin (of_int (- 8894735753914735) * (1 / 2 ^ 100))"
    by (rule round_b64_eval [where k = "- 48"])
       (simp_all add: math_pi_def powr_minus field_simps)
  then show ?thesis by simp
qed

lemma r2d_b64_tiny: "r2d_b64 (Fin (sin_two_pi_b64 / 2)) = Fin (- (8894735753914735 / 2 ^ 100))"
  using mul_180 div_pi by (simp add: r2d_b64_def fdiv_const_def)

lemma add_360: "round_b64 (- (8894735753914735 / 2 ^ 100) + 360) = Fin 360"
proof -
  have "round_b64 (- (8894735753914735 / 2 ^ 100) + 360) = Fin (of_int (360 * 2 ^ 44) * (1 / 2 ^ 44))"
    by (rule round_b64_eval [where k = 8])
       (simp_all add: powr_minus field_simps)
  then show ?thesis by simp
qed

lemma wrap360_b64_tiny: "wrap360_b64 (Fin (- (8894735753914735 / 2 ^ 100))) = Fin 360"
proof -
  have m: "py_fmod (- (8894735753914735 / 2 ^ 100)) 360 = - (8894735753914735 / 2 ^ 100)"
    by (rule py_fmod_small) simp
  have "py_mod_b64 (Fin (- (8894735753914735 / 2 ^ 100))) 360 = Fin 360"
    using m add_360 by (simp add: py_mod_b64_def Let_def)
  then show ?thesis by (simp add: wrap360_b64_def Let_def)
qed

lemma mean_angle_loop_b64_0_360:
  assumes "m_sin L 0 = 0" "m_cos L 0 = 1"
    and "m_sin L two_pi_b64 = sin_two_pi_b64" "m_cos L two_pi_b64 = 1"
  shows "mean_angle_loop_b64 L [Fin 0, Fin 360] (Fin 0) (Fin 0) = Inr (Fin sin_two_pi_b64, Fin 2)"
  using assms round_sin_two_pi round_1_2
  by (simp add: d2r_b64_0 d2r_b64_360 py_sin_def py_cos_def Let_def)

lemma mean_angle_deg_b64_0_360:
  assumes "m_sin L 0 = 0" "m_cos L 0 = 1"
    and "m_sin L two_pi_b64 = sin_two_pi_b64" "m_cos L two_pi_b64 = 1"
    and "m_atan2 L sin_two_pi_b64 2 = sin_two_pi_b64 / 2"
  shows "mean_angle_deg_b64 L [Fin 0, Fin 360] = Inr (Fin 360)"
proof -
  have nz: "sin_two_pi_b64 \<noteq> 0" by (simp add: sin_two_pi_b64_def)
  have big: "\<not> (2::real) < lit_1em12" by (simp add: lit_1em12_def)
  show ?thesis
    unfolding mean_angle_deg_b64_def mean_angle_loop_b64_0_360 [OF assms(1-4)]
    using big nz wrap360_b64_tiny by (simp add: flt_def assms(5) r2d_b64_tiny)
qed

text \<open>
  Claim C5 says that \<^verbatim>\<open>mean_angle_deg([0, 360])\<close> is \<open>0\<close>. On the code it is \<open>360.0\<close>:
  \<^verbatim>\<open>d2r(360.0)\<close> is the double nearest to \<open>2 * pi\<close>, which lies below \<open>2 * pi\<close>, so its
  sine is a tiny negative number; the sums are \<open>s = -2.4e-16\<close> and \<open>c = 2\<close>, the angle
  \<^verbatim>\<open>r2d(atan2(s, c))\<close> is \<open>-7.0e-15\<close>, and \<^verbatim>\<open>wrap360\<close> rounds it up to \<open>360.0\<close> as in C6.
\<close>

theorem mean_angle_deg_b64_boundary:
  "mean_angle_deg_b64 libm_observed [Fin 0, Fin 360] = Inr (Fin 360)
   \<and> mean_angle_deg_b64 libm_observed [Fin 0, Fin 360] \<noteq> Inr (Fin 0)"
proof -
  have tp: "two_pi_b64 \<noteq> 0" by (simp add: two_pi_b64_def)
  have "mean_angle_deg_b64 libm_observed [Fin 0, Fin 360] = Inr (Fin 360)"
    using tp
    by (intro mean_angle_deg_b64_0_360) (simp_all add: libm_observed_def round_fin_1)
  then show ?thesis by simp
qed

end
